theory Spec2Isabelle
  imports Main "HOL-Library.Word"
begin

section \<open>Strings\<close>

text \<open>
  A JavaScript string is a sequence of 16-bit code units. The literals of \<^verbatim>\<open>main.js\<close>
  are ASCII, so they are written as HOL strings and converted with \<open>js\<close>.
\<close>

type_synonym code_unit = "16 word"
type_synonym jsstring = "code_unit list"

definition js :: "string \<Rightarrow> jsstring" where
  "js s = map of_char s"

text \<open>
  \<^verbatim>\<open>String.prototype.trim\<close> strips the code units of the ECMAScript productions
  WhiteSpace (TAB, VT, FF, SP, NBSP, ZWNBSP and the category Zs) and LineTerminator
  (LF, CR, LS, PS) from both ends.
\<close>

definition isWhiteSpace :: "code_unit \<Rightarrow> bool" where
  "isWhiteSpace c \<longleftrightarrow>
     c = 0x09 \<or> c = 0x0B \<or> c = 0x0C \<or> c = 0x20 \<or> c = 0xA0 \<or> c = 0xFEFF \<or>
     c = 0x1680 \<or> (0x2000 \<le> c \<and> c \<le> 0x200A) \<or> c = 0x202F \<or> c = 0x205F \<or>
     c = 0x3000 \<or> c = 0x0A \<or> c = 0x0D \<or> c = 0x2028 \<or> c = 0x2029"

definition trim :: "jsstring \<Rightarrow> jsstring" where
  "trim s = rev (dropWhile isWhiteSpace (rev (dropWhile isWhiteSpace s)))"

text \<open>The decimal digits of a non-negative integer, as \<^verbatim>\<open>Number.prototype.toString\<close> prints it.\<close>

fun decimal :: "nat \<Rightarrow> jsstring" where
  "decimal n = (if n < 10 then [of_nat (48 + n)] else decimal (n div 10) @ [of_nat (48 + n mod 10)])"

declare decimal.simps [simp del]

section \<open>The page and the browser state\<close>

text \<open>
  The errors the code can raise or pass on. \<open>Error m\<close> is \<^verbatim>\<open>new Error(m)\<close>.
\<close>

datatype js_error = TypeError | ReferenceError | SyntaxError | NotFoundError | Error jsstring

text \<open>
  The elements the script looks up, with the properties it reads and writes.
  \<open>ta_height\<close> is \<^verbatim>\<open>style.height\<close>, \<open>sp_display\<close> is \<^verbatim>\<open>style.display\<close>.
\<close>

record textarea =
  ta_value :: jsstring
  ta_height :: jsstring

record button =
  btn_disabled :: bool
  btn_innerHTML :: jsstring

record spinner =
  sp_display :: jsstring

text \<open>
  A child node of the container or of the body. \<open>node_id\<close> is the node's identity:
  \<^verbatim>\<open>document.createElement\<close> hands out a fresh one.
\<close>

record node =
  node_id :: nat
  tagName :: jsstring
  className :: jsstring
  role :: "jsstring option"
  innerHTML :: jsstring
  node_value :: jsstring

datatype element_ref = QuestionRef | NodeRef nat

text \<open>
  The document as the script sees it: each field is the result of one of its lookups,
  \<open>None\<close> (or \<open>False\<close>) where \<^verbatim>\<open>getElementById\<close> or \<^verbatim>\<open>querySelector\<close> returns null.
  \<open>exampleButtons\<close> lists the \<^verbatim>\<open>.example-question\<close> buttons in document order, each with
  its \<^verbatim>\<open>data-question\<close> attribute (\<open>None\<close> when the attribute is missing);
  \<open>container\<close> holds the child nodes of the first \<^verbatim>\<open>.container\<close> element;
  \<open>answerContent\<close> is the \<^verbatim>\<open>innerText\<close> of \<^verbatim>\<open>.answer-content div.mt-2\<close>;
  \<open>body\<close> holds the child nodes of \<^verbatim>\<open>document.body\<close>;
  \<open>tooltipTriggers\<close> counts the elements matching \<^verbatim>\<open>[data-bs-toggle="tooltip"]\<close>.
\<close>

record document =
  questionForm :: bool
  question :: "textarea option"
  submitBtn :: "button option"
  loadingSpinner :: "spinner option"
  exampleButtons :: "jsstring option list"
  container :: "node list option"
  answerContent :: "jsstring option"
  body :: "node list"
  tooltipTriggers :: nat
  activeElement :: "element_ref option"
  selection :: "element_ref option"

datatype timer_callback = FocusQuestion | RemoveAlert nat | Redirect

datatype event_target = DocumentTarget | WindowTarget | FormTarget | ExampleButtonTarget nat | QuestionTarget

datatype event_type = DOMContentLoaded | Submit | Click | Input | ErrorEvent | UnhandledRejection

datatype listener =
  InitializeApp | HandleFormSubmit | ExampleQuestionClick | AutoResizeTextarea
  | GlobalError | GlobalRejection

datatype console_entry = ConsoleLog jsstring | ConsoleError jsstring "js_error option"

datatype scroll_request = ScrollQuestionIntoView jsstring jsstring | WindowScrollTo nat jsstring

record request =
  url :: jsstring
  http_method :: jsstring
  headers :: "(jsstring \<times> jsstring) list"
  req_body :: jsstring

datatype exported = CopyAnswer | ClearAnswer | ShowAlert | AskQuestionAPI

text \<open>
  Everything the script can change: the document, the allocator of node identities, the
  pending timers (delay in milliseconds and callback, in the order they were set), the
  registered listeners, the console, the scroll requests, a navigation request
  (\<^verbatim>\<open>window.location.href\<close>), the requests sent, the clipboard, the tooltips built and
  the object \<^verbatim>\<open>window.retailQA\<close>.
\<close>

record browser =
  doc :: document
  next_node :: nat
  timers :: "(nat \<times> timer_callback) list"
  listeners :: "(event_target \<times> event_type \<times> listener) list"
  console :: "console_entry list"
  scrollRequests :: "scroll_request list"
  location_href :: "jsstring option"
  requests :: "request list"
  clipboard :: jsstring
  tooltips :: nat
  retailQA :: "exported list"

record event =
  defaultPrevented :: bool

text \<open>A call returns a value or throws; the changes made up to the throw stay.\<close>

datatype 'a outcome = Returned 'a browser | Threw js_error browser

section \<open>The functions of main.js\<close>

definition createElement :: "jsstring \<Rightarrow> browser \<Rightarrow> node \<times> browser" where
  "createElement tag b =
     (\<lparr>node_id = next_node b, tagName = tag, className = [], role = None,
       innerHTML = [], node_value = []\<rparr>,
      b\<lparr>next_node := Suc (next_node b)\<rparr>)"

definition alertClassName :: "jsstring \<Rightarrow> jsstring" where
  "alertClassName ty = js ''alert alert-'' @ ty @ js '' alert-dismissible fade show''"

definition alertInnerHTML :: "jsstring \<Rightarrow> jsstring" where
  \<open>alertInnerHTML message =
     [0x0A] @ js ''        <i class="fas fa-info-circle me-2"></i>'' @ [0x0A] @
     js ''        '' @ message @ [0x0A] @
     js ''        <button type="button" class="btn-close" data-bs-dismiss="alert" aria-label="Close"></button>'' @
     [0x0A] @ js ''    ''\<close>

text \<open>
  \<^verbatim>\<open>showAlert(message, type = 'info')\<close>: a missing second argument is \<open>None\<close>.
  \<^verbatim>\<open>insertBefore(alertDiv, container.firstChild)\<close> puts the banner in front of the children
  (and appends it when there are none).
\<close>

definition showAlert :: "jsstring \<Rightarrow> jsstring option \<Rightarrow> browser \<Rightarrow> browser" where
  "showAlert message ty b =
     (let (el, b1) = createElement (js ''div'') b;
          alertDiv = el\<lparr>className := alertClassName (case ty of None \<Rightarrow> js ''info'' | Some t \<Rightarrow> t),
                        role := Some (js ''alert''),
                        innerHTML := alertInnerHTML message\<rparr>
      in case container (doc b1) of
           None \<Rightarrow> b1
         | Some children \<Rightarrow>
             b1\<lparr>doc := (doc b1)\<lparr>container := Some (alertDiv # children)\<rparr>,
                timers := timers b1 @ [(5000, RemoveAlert (node_id alertDiv))]\<rparr>)"

definition processingLabel :: jsstring where
  \<open>processingLabel = js ''<i class="fas fa-spinner fa-spin me-2"></i>Processing...''\<close>

definition askLabel :: jsstring where
  \<open>askLabel = js ''<i class="fas fa-paper-plane me-2"></i>Ask AI Assistant''\<close>

definition showLoadingState :: "browser \<Rightarrow> browser" where
  "showLoadingState b =
     (let b1 = (case submitBtn (doc b) of
                  None \<Rightarrow> b
                | Some btn \<Rightarrow>
                    b\<lparr>doc := (doc b)\<lparr>submitBtn :=
                      Some (btn\<lparr>btn_disabled := True, btn_innerHTML := processingLabel\<rparr>)\<rparr>\<rparr>)
      in case loadingSpinner (doc b1) of
           None \<Rightarrow> b1
         | Some sp \<Rightarrow>
             b1\<lparr>doc := (doc b1)\<lparr>loadingSpinner := Some (sp\<lparr>sp_display := js ''block''\<rparr>)\<rparr>\<rparr>)"

definition hideLoadingState :: "browser \<Rightarrow> browser" where
  "hideLoadingState b =
     (let b1 = (case submitBtn (doc b) of
                  None \<Rightarrow> b
                | Some btn \<Rightarrow>
                    b\<lparr>doc := (doc b)\<lparr>submitBtn :=
                      Some (btn\<lparr>btn_disabled := False, btn_innerHTML := askLabel\<rparr>)\<rparr>\<rparr>)
      in case loadingSpinner (doc b1) of
           None \<Rightarrow> b1
         | Some sp \<Rightarrow>
             b1\<lparr>doc := (doc b1)\<lparr>loadingSpinner := Some (sp\<lparr>sp_display := js ''none''\<rparr>)\<rparr>\<rparr>)"

text \<open>
  \<^verbatim>\<open>handleFormSubmit(event)\<close>. Reading \<^verbatim>\<open>.value\<close> of a missing element throws a TypeError
  before anything else happens. The empty string is the only falsy string.
\<close>

definition handleFormSubmit :: "event \<Rightarrow> browser \<Rightarrow> (bool \<times> event) outcome" where
  "handleFormSubmit ev b =
     (case question (doc b) of
        None \<Rightarrow> Threw TypeError b
      | Some ta \<Rightarrow>
          (let q = trim (ta_value ta) in
           if q = [] then
             Returned (False, ev\<lparr>defaultPrevented := True\<rparr>)
               (showAlert (js ''Please enter a question before submitting.'') (Some (js ''warning'')) b)
           else Returned (True, ev) (showLoadingState b)))"

text \<open>
  \<^verbatim>\<open>autoResizeTextarea\<close>, with \<^verbatim>\<open>this\<close> the textarea. \<open>scrollHeight\<close> is the layout's
  answer for the textarea as it stands when the property is read, a non-negative integer.
\<close>

definition autoResizeTextarea :: "(textarea \<Rightarrow> nat) \<Rightarrow> textarea \<Rightarrow> textarea" where
  "autoResizeTextarea scrollHeight ta =
     (let t1 = ta\<lparr>ta_height := js ''auto''\<rparr>
      in t1\<lparr>ta_height := decimal (min (scrollHeight t1) 200) @ js ''px''\<rparr>)"

text \<open>
  The click listener of an example button; \<open>dataQuestion\<close> is
  \<^verbatim>\<open>this.getAttribute('data-question')\<close>. Assigning null to \<^verbatim>\<open>.value\<close> stores the empty
  string. The textarea is looked up without a check.
\<close>

definition exampleQuestionClick :: "jsstring option \<Rightarrow> browser \<Rightarrow> unit outcome" where
  "exampleQuestionClick dataQuestion b =
     (case question (doc b) of
        None \<Rightarrow> Threw TypeError b
      | Some ta \<Rightarrow>
          (let b1 = b\<lparr>doc := (doc b)\<lparr>question :=
                      Some (ta\<lparr>ta_value := (case dataQuestion of None \<Rightarrow> [] | Some q \<Rightarrow> q)\<rparr>)\<rparr>\<rparr>;
               b2 = b1\<lparr>scrollRequests := scrollRequests b1 @
                      [ScrollQuestionIntoView (js ''smooth'') (js ''center'')]\<rparr>
           in Returned () (b2\<lparr>timers := timers b2 @ [(500, FocusQuestion)]\<rparr>)))"

text \<open>
  \<^verbatim>\<open>addEventListener\<close> ignores a listener that is already registered for the same target
  and type; the click listeners are closures made anew on each call, so they never are.
\<close>

definition addEventListener :: "event_target \<Rightarrow> event_type \<Rightarrow> listener \<Rightarrow> browser \<Rightarrow> browser" where
  "addEventListener t ty l b =
     (if (l = HandleFormSubmit \<or> l = AutoResizeTextarea) \<and> (t, ty, l) \<in> set (listeners b) then b
      else b\<lparr>listeners := listeners b @ [(t, ty, l)]\<rparr>)"

definition setupEventListeners :: "browser \<Rightarrow> browser" where
  "setupEventListeners b =
     (let b1 = (if questionForm (doc b) then addEventListener FormTarget Submit HandleFormSubmit b
                else b);
          b2 = foldl (\<lambda>s i. addEventListener (ExampleButtonTarget i) Click ExampleQuestionClick s)
                 b1 [0 ..< length (exampleButtons (doc b1))]
      in case question (doc b2) of
           None \<Rightarrow> b2
         | Some _ \<Rightarrow> addEventListener QuestionTarget Input AutoResizeTextarea b2)"

text \<open>
  \<^verbatim>\<open>initializeTooltips\<close>: \<open>bootstrapDefined\<close> says whether the global \<^verbatim>\<open>bootstrap\<close> exists;
  without it the first \<^verbatim>\<open>new bootstrap.Tooltip\<close> throws a ReferenceError.
\<close>

definition initializeTooltips :: "bool \<Rightarrow> browser \<Rightarrow> unit outcome" where
  "initializeTooltips bootstrapDefined b =
     (if tooltipTriggers (doc b) = 0 then Returned () b
      else if bootstrapDefined then Returned () (b\<lparr>tooltips := tooltips b + tooltipTriggers (doc b)\<rparr>)
      else Threw ReferenceError b)"

definition initializeApp :: "bool \<Rightarrow> browser \<Rightarrow> unit outcome" where
  "initializeApp bootstrapDefined b =
     (case initializeTooltips bootstrapDefined (setupEventListeners b) of
        Threw e b1 \<Rightarrow> Threw e b1
      | Returned _ b1 \<Rightarrow>
          Returned () (b1\<lparr>console := console b1 @
            [ConsoleLog (js ''Retail Q&A App initialized successfully'')]\<rparr>))"

text \<open>
  \<^verbatim>\<open>removeChild\<close> throws a NotFoundError when the node is not a child.
\<close>

definition removeChild :: "nat \<Rightarrow> node list \<Rightarrow> js_error + node list" where
  "removeChild n ch =
     (if n \<in> set (map node_id ch) then Inr (filter (\<lambda>c. node_id c \<noteq> n) ch)
      else Inl NotFoundError)"

text \<open>
  \<^verbatim>\<open>copyAnswer\<close>. What \<^verbatim>\<open>document.execCommand('copy')\<close> does is the platform's choice: it
  returns true (the selected text is on the clipboard), returns false, or throws.
\<close>

datatype copy_outcome = CopyReturns bool | CopyThrows js_error

definition copyAnswer :: "copy_outcome \<Rightarrow> browser \<Rightarrow> unit outcome" where
  "copyAnswer execCommand b =
     (case answerContent (doc b) of
        None \<Rightarrow> Returned () b
      | Some innerText \<Rightarrow>
          (let (el, b1) = createElement (js ''textarea'') b;
               tempTextarea = el\<lparr>node_value := innerText\<rparr>;
               b2 = b1\<lparr>doc := (doc b1)\<lparr>body := body (doc b1) @ [tempTextarea]\<rparr>\<rparr>;
               b3 = b2\<lparr>doc := (doc b2)\<lparr>selection := Some (NodeRef (node_id tempTextarea))\<rparr>\<rparr>;
               b4 = (case execCommand of
                       CopyReturns done \<Rightarrow>
                         showAlert (js ''Answer copied to clipboard!'') (Some (js ''success''))
                           (if done then b3\<lparr>clipboard := innerText\<rparr> else b3)
                     | CopyThrows err \<Rightarrow>
                         showAlert
                           (js ''Failed to copy answer. Please try selecting and copying manually.'')
                           (Some (js ''warning''))
                           (b3\<lparr>console := console b3 @
                              [ConsoleError (js ''Failed to copy text: '') (Some err)]\<rparr>))
           in case removeChild (node_id tempTextarea) (body (doc b4)) of
                Inl e \<Rightarrow> Threw e b4
              | Inr ch \<Rightarrow> Returned () (b4\<lparr>doc := (doc b4)\<lparr>body := ch\<rparr>\<rparr>)))"

definition clearAnswer :: "browser \<Rightarrow> browser" where
  "clearAnswer b =
     (let b1 = (case question (doc b) of
                  None \<Rightarrow> b
                | Some ta \<Rightarrow>
                    b\<lparr>doc := (doc b)\<lparr>question := Some (ta\<lparr>ta_value := []\<rparr>),
                                      activeElement := Some QuestionRef\<rparr>\<rparr>);
          b2 = b1\<lparr>scrollRequests := scrollRequests b1 @ [WindowScrollTo 0 (js ''smooth'')]\<rparr>
      in b2\<lparr>timers := timers b2 @ [(500, Redirect)]\<rparr>)"

text \<open>
  The callbacks handed to \<^verbatim>\<open>setTimeout\<close>: the focus after a click on an example button, the
  removal of a banner and the navigation of \<^verbatim>\<open>clearAnswer\<close>. \<open>attached n\<close> is
  \<^verbatim>\<open>alertDiv.parentNode\<close> being non-null for the banner of identity \<open>n\<close> (banners are only ever
  put into the container), \<open>removeNode n\<close> is \<^verbatim>\<open>alertDiv.remove()\<close>.
\<close>

definition attached :: "nat \<Rightarrow> browser \<Rightarrow> bool" where
  "attached n b =
     (case container (doc b) of None \<Rightarrow> False | Some ch \<Rightarrow> n \<in> set (map node_id ch))"

definition removeNode :: "nat \<Rightarrow> browser \<Rightarrow> browser" where
  "removeNode n b =
     (case container (doc b) of
        None \<Rightarrow> b
      | Some ch \<Rightarrow> b\<lparr>doc := (doc b)\<lparr>container := Some (filter (\<lambda>c. node_id c \<noteq> n) ch)\<rparr>\<rparr>)"

fun runTimerCallback :: "timer_callback \<Rightarrow> browser \<Rightarrow> unit outcome" where
  "runTimerCallback FocusQuestion b =
     (case question (doc b) of
        None \<Rightarrow> Threw TypeError b
      | Some _ \<Rightarrow> Returned () (b\<lparr>doc := (doc b)\<lparr>activeElement := Some QuestionRef\<rparr>\<rparr>))"
| "runTimerCallback (RemoveAlert n) b =
     Returned () (if attached n b then removeNode n b else b)"
| "runTimerCallback Redirect b = Returned () (b\<lparr>location_href := Some (js ''/'')\<rparr>)"

text \<open>
  \<^verbatim>\<open>askQuestionAPI\<close>. \<open>stringify\<close> is \<^verbatim>\<open>JSON.stringify\<close> and \<open>fetch\<close> the network's answer to
  a request; \<open>json_body\<close> is what \<^verbatim>\<open>response.json()\<close> settles to. \<^verbatim>\<open>response.ok\<close> is true
  for a status from 200 to 299. \<open>Threw\<close> is a rejected promise, \<open>Returned\<close> a resolved one.
  JSON numbers are kept as their text.
\<close>

datatype json =
  JNull | JBool bool | JNumber jsstring | JString jsstring | JArray "json list"
  | JObject "(jsstring \<times> json) list"

record response =
  status :: nat
  json_body :: "js_error + json"

datatype fetch_outcome = FetchRejects js_error | FetchResolves response

definition response_ok :: "response \<Rightarrow> bool" where
  "response_ok r \<longleftrightarrow> 200 \<le> status r \<and> status r \<le> 299"

definition askQuestionAPI ::
  "(json \<Rightarrow> jsstring) \<Rightarrow> (request \<Rightarrow> fetch_outcome) \<Rightarrow> jsstring \<Rightarrow> browser \<Rightarrow> json outcome" where
  "askQuestionAPI stringify fetch q b =
     (let req = \<lparr>url = js ''/api/ask'', http_method = js ''POST'',
                 headers = [(js ''Content-Type'', js ''application/json'')],
                 req_body = stringify (JObject [(js ''question'', JString q)])\<rparr>;
          b1 = b\<lparr>requests := requests b @ [req]\<rparr>;
          settled = (case fetch req of
                       FetchRejects e \<Rightarrow> Inl e
                     | FetchResolves r \<Rightarrow>
                         if \<not> response_ok r
                         then Inl (Error (js ''HTTP error! status: '' @ decimal (status r)))
                         else json_body r)
      in case settled of
           Inl e \<Rightarrow>
             Threw e (b1\<lparr>console := console b1 @
               [ConsoleError (js ''Error asking question:'') (Some e)]\<rparr>)
         | Inr data \<Rightarrow> Returned data b1)"

text \<open>The two listeners on \<^verbatim>\<open>window\<close>.\<close>

definition globalErrorHandler :: "js_error option \<Rightarrow> browser \<Rightarrow> browser" where
  "globalErrorHandler err b =
     showAlert (js ''An unexpected error occurred. Please refresh the page and try again.'')
       (Some (js ''danger''))
       (b\<lparr>console := console b @ [ConsoleError (js ''Global error:'') err]\<rparr>)"

definition unhandledRejectionHandler :: "js_error option \<Rightarrow> browser \<Rightarrow> browser" where
  "unhandledRejectionHandler reason b =
     showAlert (js ''A network error occurred. Please check your connection and try again.'')
       (Some (js ''warning''))
       (b\<lparr>console := console b @ [ConsoleError (js ''Unhandled promise rejection:'') reason]\<rparr>)"

text \<open>The statements at the top level of the script, run once when it loads.\<close>

definition main_js :: "browser \<Rightarrow> browser" where
  "main_js b =
     b\<lparr>listeners := listeners b @
          [(DocumentTarget, DOMContentLoaded, InitializeApp),
           (WindowTarget, ErrorEvent, GlobalError),
           (WindowTarget, UnhandledRejection, GlobalRejection)],
       retailQA := [CopyAnswer, ClearAnswer, ShowAlert, AskQuestionAPI]\<rparr>"

section \<open>Entry points\<close>

text \<open>
  The browser calls a listener once for each time it is registered for the event. An
  exception that leaves a listener, a timer callback or a call from the page is reported
  as an \<^verbatim>\<open>error\<close> event on \<^verbatim>\<open>window\<close>, which runs the listener registered there.
\<close>

definition registrations :: "event_target \<Rightarrow> event_type \<Rightarrow> listener \<Rightarrow> browser \<Rightarrow> nat" where
  "registrations t ty l b = length (filter (\<lambda>x. x = (t, ty, l)) (listeners b))"

definition dispatch ::
  "event_target \<Rightarrow> event_type \<Rightarrow> listener \<Rightarrow> (browser \<Rightarrow> browser) \<Rightarrow> browser \<Rightarrow> browser" where
  "dispatch t ty l handler b = (handler ^^ registrations t ty l b) b"

definition reportError :: "js_error \<Rightarrow> browser \<Rightarrow> browser" where
  "reportError e b = dispatch WindowTarget ErrorEvent GlobalError (globalErrorHandler (Some e)) b"

definition settle :: "'a outcome \<Rightarrow> browser" where
  "settle r = (case r of Returned _ b \<Rightarrow> b | Threw e b \<Rightarrow> reportError e b)"

text \<open>
  Every way into the code of the file once it is loaded: the events it listens to, the
  timers it has set (by position in the list of pending timers) and the four functions
  it exports on \<^verbatim>\<open>window.retailQA\<close>. The arguments are what the platform supplies.
  The utilities \<^verbatim>\<open>debounce\<close> and \<^verbatim>\<open>formatAnswer\<close> are neither called nor exported by the
  file, and \<^verbatim>\<open>hideLoadingState\<close> is called nowhere in it: none of them is an entry point.
\<close>

datatype entry =
  OnDOMContentLoaded bool
  | OnSubmit event
  | OnClick nat
  | OnInput "textarea \<Rightarrow> nat"
  | OnError "js_error option"
  | OnUnhandledRejection "js_error option"
  | OnTimer nat
  | CallCopyAnswer copy_outcome
  | CallClearAnswer
  | CallShowAlert jsstring "jsstring option"
  | CallAskQuestionAPI "json \<Rightarrow> jsstring" "request \<Rightarrow> fetch_outcome" jsstring

fun run :: "entry \<Rightarrow> browser \<Rightarrow> browser" where
  "run (OnDOMContentLoaded bootstrapDefined) b =
     dispatch DocumentTarget DOMContentLoaded InitializeApp
       (\<lambda>s. settle (initializeApp bootstrapDefined s)) b"
| "run (OnSubmit ev) b =
     dispatch FormTarget Submit HandleFormSubmit (\<lambda>s. settle (handleFormSubmit ev s)) b"
| "run (OnClick i) b =
     (if i < length (exampleButtons (doc b))
      then dispatch (ExampleButtonTarget i) Click ExampleQuestionClick
             (\<lambda>s. settle (exampleQuestionClick (exampleButtons (doc b) ! i) s)) b
      else b)"
| "run (OnInput scrollHeight) b =
     dispatch QuestionTarget Input AutoResizeTextarea
       (\<lambda>s. case question (doc s) of
               None \<Rightarrow> s
             | Some ta \<Rightarrow> s\<lparr>doc := (doc s)\<lparr>question := Some (autoResizeTextarea scrollHeight ta)\<rparr>\<rparr>) b"
| "run (OnError err) b = dispatch WindowTarget ErrorEvent GlobalError (globalErrorHandler err) b"
| "run (OnUnhandledRejection reason) b =
     dispatch WindowTarget UnhandledRejection GlobalRejection (unhandledRejectionHandler reason) b"
| "run (OnTimer k) b =
     (if k < length (timers b)
      then settle (runTimerCallback (snd (timers b ! k))
                     (b\<lparr>timers := take k (timers b) @ drop (Suc k) (timers b)\<rparr>))
      else b)"
| "run (CallCopyAnswer execCommand) b = settle (copyAnswer execCommand b)"
| "run CallClearAnswer b = clearAnswer b"
| "run (CallShowAlert message ty) b = showAlert message ty b"
| "run (CallAskQuestionAPI stringify fetch q) b =
     (case askQuestionAPI stringify fetch q b of Returned _ s \<Rightarrow> s | Threw _ s \<Rightarrow> s)"

definition runs :: "entry list \<Rightarrow> browser \<Rightarrow> browser" where
  "runs es b = foldl (\<lambda>s e. run e s) b es"

text \<open>The loading state, as \<open>showLoadingState\<close> leaves the button and the spinner.\<close>

definition controls :: "browser \<Rightarrow> button option \<times> spinner option" where
  "controls b = (submitBtn (doc b), loadingSpinner (doc b))"

definition loading :: "browser \<Rightarrow> bool" where
  "loading b \<longleftrightarrow>
     (case submitBtn (doc b) of
        None \<Rightarrow> True
      | Some btn \<Rightarrow> btn_disabled btn \<and> btn_innerHTML btn = processingLabel) \<and>
     (case loadingSpinner (doc b) of
        None \<Rightarrow> True
      | Some sp \<Rightarrow> sp_display sp = js ''block'')"

section \<open>A sample page\<close>

definition samplePage :: document where
  "samplePage =
     \<lparr>questionForm = True,
      question = Some \<lparr>ta_value = js ''   '', ta_height = []\<rparr>,
      submitBtn = Some \<lparr>btn_disabled = False, btn_innerHTML = askLabel\<rparr>,
      loadingSpinner = Some \<lparr>sp_display = js ''none''\<rparr>,
      exampleButtons = [Some (js ''What is the return policy?'')],
      container = Some [\<lparr>node_id = 0, tagName = js ''h1'', className = [], role = None,
                         innerHTML = js ''Retail Q&A'', node_value = []\<rparr>],
      answerContent = Some (js ''Within 30 days.''),
      body = [],
      tooltipTriggers = 0,
      activeElement = None,
      selection = None\<rparr>"

text \<open>
  A page as the browser hands it to the script: nothing pending, and the next node identity
  above those of the nodes already there.
\<close>

definition freshId :: "document \<Rightarrow> nat" where
  "freshId d =
     Suc (fold max
       (map node_id (case container d of None \<Rightarrow> [] | Some ch \<Rightarrow> ch) @ map node_id (body d)) 0)"

definition loaded :: "document \<Rightarrow> browser" where
  "loaded d =
     \<lparr>doc = d, next_node = freshId d, timers = [], listeners = [], console = [], scrollRequests = [],
      location_href = None, requests = [], clipboard = [], tooltips = 0, retailQA = []\<rparr>"

section \<open>Properties\<close>

lemma trim_Nil_iff: "trim s = [] \<longleftrightarrow> (\<forall>c \<in> set s. isWhiteSpace c)"
proof
  assume "trim s = []"
  then have all: "\<forall>c \<in> set (dropWhile isWhiteSpace s). isWhiteSpace c"
    by (simp add: trim_def)
  have "dropWhile isWhiteSpace s = []"
  proof (rule ccontr)
    assume ne: "dropWhile isWhiteSpace s \<noteq> []"
    then have "\<not> isWhiteSpace (hd (dropWhile isWhiteSpace s))"
      by (rule hd_dropWhile)
    moreover have "hd (dropWhile isWhiteSpace s) \<in> set (dropWhile isWhiteSpace s)"
      using ne by simp
    ultimately show False using all by blast
  qed
  then show "\<forall>c \<in> set s. isWhiteSpace c"
    by (simp only: dropWhile_eq_Nil_conv)
next
  assume "\<forall>c \<in> set s. isWhiteSpace c"
  then have "dropWhile isWhiteSpace s = []"
    by (simp only: dropWhile_eq_Nil_conv)
  then show "trim s = []"
    by (simp only: trim_def rev.simps dropWhile.simps)
qed

text \<open>
  So a value is blank after trimming exactly when it is empty or made of white space only.
\<close>

subsection \<open>The alert helper, step by step\<close>

lemma showAlert_no_container:
  "container (doc b) = None \<Longrightarrow> showAlert message ty b = b\<lparr>next_node := Suc (next_node b)\<rparr>"
  by (simp add: showAlert_def createElement_def)

lemma showAlert_container:
  "container (doc b) = Some ch \<Longrightarrow>
   showAlert message ty b =
     b\<lparr>doc := (doc b)\<lparr>container := Some
          (\<lparr>node_id = next_node b, tagName = js ''div'',
            className = alertClassName (case ty of None \<Rightarrow> js ''info'' | Some t \<Rightarrow> t),
            role = Some (js ''alert''), innerHTML = alertInnerHTML message, node_value = []\<rparr> # ch)\<rparr>,
       next_node := Suc (next_node b),
       timers := timers b @ [(5000, RemoveAlert (next_node b))]\<rparr>"
  by (simp add: showAlert_def createElement_def)

subsection \<open>Submitting the form\<close>

text \<open>
  C1, as amended. When the textarea exists and its trimmed value is empty,
  \<open>handleFormSubmit\<close> returns false with the default submission cancelled, and leaves the
  submit button and the spinner as they were. If the page has a \<^verbatim>\<open>.container\<close>, exactly one
  banner of class \<^verbatim>\<open>alert-warning\<close> becomes its first child; if it has none, no banner is
  inserted and no timer is set.
\<close>

theorem handleFormSubmit_blank:
  assumes "question (doc b) = Some ta" and "trim (ta_value ta) = []"
  shows "\<exists>b'. handleFormSubmit ev b = Returned (False, ev\<lparr>defaultPrevented := True\<rparr>) b' \<and>
           submitBtn (doc b') = submitBtn (doc b) \<and>
           loadingSpinner (doc b') = loadingSpinner (doc b) \<and>
           (case container (doc b) of
              None \<Rightarrow> container (doc b') = None \<and> timers b' = timers b
            | Some ch \<Rightarrow>
                container (doc b') = Some
                  (\<lparr>node_id = next_node b, tagName = js ''div'',
                    className = js ''alert alert-warning alert-dismissible fade show'',
                    role = Some (js ''alert''),
                    innerHTML = alertInnerHTML (js ''Please enter a question before submitting.''),
                    node_value = []\<rparr> # ch))"
proof (cases "container (doc b)")
  case None
  then show ?thesis
    using assms by (simp add: handleFormSubmit_def showAlert_no_container)
next
  case (Some ch)
  have "alertClassName (js ''warning'') = js ''alert alert-warning alert-dismissible fade show''"
    by (simp add: alertClassName_def js_def)
  with Some show ?thesis
    using assms by (simp add: handleFormSubmit_def showAlert_container)
qed

theorem handleFormSubmit_blank_witness:
  "question (doc (loaded samplePage)) = Some \<lparr>ta_value = js ''   '', ta_height = []\<rparr> \<and>
   trim (js ''   '') = [] \<and>
   (\<exists>b'. handleFormSubmit \<lparr>defaultPrevented = False\<rparr> (loaded samplePage) =
            Returned (False, \<lparr>defaultPrevented = True\<rparr>) b' \<and>
          submitBtn (doc b') = Some \<lparr>btn_disabled = False, btn_innerHTML = askLabel\<rparr> \<and>
          map className (the (container (doc b'))) =
            [js ''alert alert-warning alert-dismissible fade show'', []])"
proof -
  have q: "question (doc (loaded samplePage)) = Some \<lparr>ta_value = js ''   '', ta_height = []\<rparr>"
    by (simp add: loaded_def samplePage_def)
  have t: "trim (ta_value \<lparr>ta_value = js ''   '', ta_height = []\<rparr>) = []"
    by (simp add: trim_def js_def isWhiteSpace_def)
  from handleFormSubmit_blank [OF q t, of "\<lparr>defaultPrevented = False\<rparr>"] q t
  show ?thesis
    by (auto simp add: loaded_def samplePage_def)
qed

text \<open>
  The claim as first stated promises the warning on every blank submission. On the sample
  page without its \<^verbatim>\<open>.container\<close> a submission of three spaces is cancelled and nothing is
  shown: the state afterwards is the state before, up to the identity spent on the banner
  that was built and dropped.
\<close>

theorem handleFormSubmit_blank_no_container:
  "trim (js ''   '') = [] \<and>
   handleFormSubmit \<lparr>defaultPrevented = False\<rparr> (loaded (samplePage\<lparr>container := None\<rparr>)) =
     Returned (False, \<lparr>defaultPrevented = True\<rparr>)
       ((loaded (samplePage\<lparr>container := None\<rparr>))\<lparr>next_node := 2\<rparr>) \<and>
   container (doc ((loaded (samplePage\<lparr>container := None\<rparr>))\<lparr>next_node := 2\<rparr>)) = None \<and>
   body (doc ((loaded (samplePage\<lparr>container := None\<rparr>))\<lparr>next_node := 2\<rparr>)) = [] \<and>
   timers ((loaded (samplePage\<lparr>container := None\<rparr>))\<lparr>next_node := 2\<rparr>) = []"
  by (simp add: handleFormSubmit_def showAlert_no_container loaded_def freshId_def samplePage_def
      trim_def js_def isWhiteSpace_def)

text \<open>
  C2. When the textarea exists and its trimmed value is not empty, \<open>handleFormSubmit\<close>
  returns true and leaves the event as it was (the default submission is not cancelled);
  in the state it returns, the submit button, if there is one, is disabled and carries the
  label that ends in \<^verbatim>\<open>Processing...\<close>, and the spinner, if there is one, is displayed as a
  block. No banner is inserted.
\<close>

theorem handleFormSubmit_nonblank:
  assumes "question (doc b) = Some ta" and "trim (ta_value ta) \<noteq> []"
  shows "\<exists>b'. handleFormSubmit ev b = Returned (True, ev) b' \<and>
           submitBtn (doc b') =
             map_option (\<lambda>btn. btn\<lparr>btn_disabled := True, btn_innerHTML := processingLabel\<rparr>)
               (submitBtn (doc b)) \<and>
           loadingSpinner (doc b') =
             map_option (\<lambda>sp. sp\<lparr>sp_display := js ''block''\<rparr>) (loadingSpinner (doc b)) \<and>
           container (doc b') = container (doc b) \<and>
           (\<exists>icon. processingLabel = icon @ js ''Processing...'')"
proof -
  have \<open>processingLabel = js ''<i class="fas fa-spinner fa-spin me-2"></i>'' @ js ''Processing...''\<close>
    by (simp add: processingLabel_def js_def)
  then have "\<exists>icon. processingLabel = icon @ js ''Processing...''" by blast
  then show ?thesis
    using assms
    by (simp add: handleFormSubmit_def showLoadingState_def split: option.splits)
qed

theorem handleFormSubmit_nonblank_witness:
  "trim (js '' return policy? '') = js ''return policy?'' \<and>
   (\<exists>b'. handleFormSubmit \<lparr>defaultPrevented = False\<rparr>
            (loaded (samplePage\<lparr>question :=
               Some \<lparr>ta_value = js '' return policy? '', ta_height = []\<rparr>\<rparr>)) =
            Returned (True, \<lparr>defaultPrevented = False\<rparr>) b' \<and>
          submitBtn (doc b') = Some \<lparr>btn_disabled = True, btn_innerHTML = processingLabel\<rparr> \<and>
          loadingSpinner (doc b') = Some \<lparr>sp_display = js ''block''\<rparr>)"
proof -
  let ?ta = "\<lparr>ta_value = js '' return policy? '', ta_height = []\<rparr>"
  let ?b = "loaded (samplePage\<lparr>question := Some ?ta\<rparr>)"
  have t: "trim (js '' return policy? '') = js ''return policy?''"
    by (simp add: trim_def js_def isWhiteSpace_def)
  have q: "question (doc ?b) = Some ?ta"
    by (simp add: loaded_def samplePage_def)
  have n: "trim (ta_value ?ta) \<noteq> []"
    using t by (simp add: js_def)
  from handleFormSubmit_nonblank [OF q n, of "\<lparr>defaultPrevented = False\<rparr>"] t
  show ?thesis
    by (auto simp add: loaded_def samplePage_def)
qed

subsection \<open>Lookups without a check\<close>

text \<open>
  C3. Two listeners use \<^verbatim>\<open>document.getElementById('question')\<close> without a check. On the
  sample page without the textarea, \<open>handleFormSubmit\<close> and the click listener of an
  example button both throw a TypeError instead of skipping the work; once the page is set
  up, a submission there ends in the \<^verbatim>\<open>alert-danger\<close> banner of the global error listener.
\<close>

theorem missing_question_throws:
  "handleFormSubmit \<lparr>defaultPrevented = False\<rparr> (loaded (samplePage\<lparr>question := None\<rparr>)) =
     Threw TypeError (loaded (samplePage\<lparr>question := None\<rparr>)) \<and>
   exampleQuestionClick (Some (js ''What is the return policy?''))
       (loaded (samplePage\<lparr>question := None\<rparr>)) =
     Threw TypeError (loaded (samplePage\<lparr>question := None\<rparr>)) \<and>
   map className (the (container (doc
       (run (OnSubmit \<lparr>defaultPrevented = False\<rparr>)
          (run (OnDOMContentLoaded True) (main_js (loaded (samplePage\<lparr>question := None\<rparr>)))))))) =
     [js ''alert alert-danger alert-dismissible fade show'', []]"
  by (simp add: handleFormSubmit_def exampleQuestionClick_def loaded_def freshId_def samplePage_def
      main_js_def dispatch_def registrations_def settle_def initializeApp_def
      initializeTooltips_def setupEventListeners_def addEventListener_def reportError_def
      globalErrorHandler_def showAlert_def createElement_def alertClassName_def js_def)

subsection \<open>The textarea\<close>

lemma decimal_200: "decimal 200 = js ''200''"
  by (simp add: decimal.simps js_def)

lemma decimal_57: "decimal 57 = js ''57''"
  by (simp add: decimal.simps js_def)

text \<open>
  C4. \<open>autoResizeTextarea\<close> leaves the height at \<open>min (scrollHeight, 200)\<close> pixels, where
  the scroll height is the one measured after the height was reset to \<^verbatim>\<open>auto\<close>; the
  number of pixels is at most 200 whatever the content, and the value is not touched.
\<close>

theorem autoResizeTextarea_height:
  "ta_height (autoResizeTextarea scrollHeight ta) =
     decimal (min (scrollHeight (ta\<lparr>ta_height := js ''auto''\<rparr>)) 200) @ js ''px'' \<and>
   (\<exists>n\<le>200. ta_height (autoResizeTextarea scrollHeight ta) = decimal n @ js ''px'') \<and>
   ta_value (autoResizeTextarea scrollHeight ta) = ta_value ta"
proof -
  let ?n = "min (scrollHeight (ta\<lparr>ta_height := js ''auto''\<rparr>)) 200"
  have h: "ta_height (autoResizeTextarea scrollHeight ta) = decimal ?n @ js ''px''"
    by (simp add: autoResizeTextarea_def Let_def)
  have "?n \<le> 200" by simp
  with h have "\<exists>n\<le>200. ta_height (autoResizeTextarea scrollHeight ta) = decimal n @ js ''px''"
    by blast
  with h show ?thesis
    by (simp add: autoResizeTextarea_def Let_def)
qed

theorem autoResizeTextarea_height_witness:
  "ta_height (autoResizeTextarea (\<lambda>t. 340)
     \<lparr>ta_value = js ''a long question'', ta_height = js ''57px''\<rparr>) = js ''200px'' \<and>
   ta_height (autoResizeTextarea (\<lambda>t. if ta_height t = js ''auto'' then 57 else 999)
     \<lparr>ta_value = js ''short'', ta_height = js ''200px''\<rparr>) = js ''57px''"
  using autoResizeTextarea_height [of "\<lambda>t. 340"
      "\<lparr>ta_value = js ''a long question'', ta_height = js ''57px''\<rparr>"]
    autoResizeTextarea_height [of "\<lambda>t. if ta_height t = js ''auto'' then 57 else 999"
      "\<lparr>ta_value = js ''short'', ta_height = js ''200px''\<rparr>"]
  by (simp add: decimal_200 decimal_57 js_def)

subsection \<open>The example buttons\<close>

lemma addEventListener_doc [simp]: "doc (addEventListener t ty l b) = doc b"
  by (simp add: addEventListener_def)

lemma addEventListener_keeps:
  "x \<in> set (listeners b) \<Longrightarrow> x \<in> set (listeners (addEventListener t ty l b))"
  by (simp add: addEventListener_def)

lemma foldl_click_doc:
  "doc (foldl (\<lambda>s i. addEventListener (ExampleButtonTarget i) Click ExampleQuestionClick s) b xs) = doc b"
  by (induction xs arbitrary: b) simp_all

lemma foldl_click_listeners:
  "listeners (foldl (\<lambda>s i. addEventListener (ExampleButtonTarget i) Click ExampleQuestionClick s) b xs) =
     listeners b @ map (\<lambda>i. (ExampleButtonTarget i, Click, ExampleQuestionClick)) xs"
  by (induction xs arbitrary: b) (simp_all add: addEventListener_def)

lemma setupEventListeners_click:
  assumes "i < length (exampleButtons (doc b))"
  shows "(ExampleButtonTarget i, Click, ExampleQuestionClick) \<in> set (listeners (setupEventListeners b))"
proof -
  define b1 where
    "b1 = (if questionForm (doc b) then addEventListener FormTarget Submit HandleFormSubmit b else b)"
  define b2 where
    "b2 = foldl (\<lambda>s i. addEventListener (ExampleButtonTarget i) Click ExampleQuestionClick s)
            b1 [0 ..< length (exampleButtons (doc b1))]"
  have d: "doc b1 = doc b" by (simp add: b1_def)
  have "i \<in> set [0 ..< length (exampleButtons (doc b1))]"
    using assms d by simp
  then have mem: "(ExampleButtonTarget i, Click, ExampleQuestionClick) \<in> set (listeners b2)"
    unfolding b2_def foldl_click_listeners by (simp del: upt.simps)
  have eq: "setupEventListeners b =
      (case question (doc b2) of
         None \<Rightarrow> b2
       | Some x \<Rightarrow> addEventListener QuestionTarget Input AutoResizeTextarea b2)"
    unfolding setupEventListeners_def Let_def b2_def b1_def by (rule refl)
  show ?thesis
    unfolding eq using mem by (cases "question (doc b2)") (simp_all add: addEventListener_keeps)
qed

text \<open>
  C5, as amended. \<open>setupEventListeners\<close> registers the click listener on every example
  button. When the textarea exists and the button has a \<^verbatim>\<open>data-question\<close> attribute \<open>q\<close>, the listener
  returns with the textarea's value equal to \<open>q\<close>, one more request to scroll the textarea
  into view (smooth, centred) and one more timer, of 500 ms, whose callback focuses the
  textarea.
\<close>

theorem exampleQuestionClick_fills:
  assumes "question (doc b) = Some ta"
  shows "(\<exists>b'. exampleQuestionClick (Some q) b = Returned () b' \<and>
            question (doc b') = Some (ta\<lparr>ta_value := q\<rparr>) \<and>
            scrollRequests b' =
              scrollRequests b @ [ScrollQuestionIntoView (js ''smooth'') (js ''center'')] \<and>
            timers b' = timers b @ [(500, FocusQuestion)] \<and>
            runTimerCallback FocusQuestion b' =
              Returned () (b'\<lparr>doc := (doc b')\<lparr>activeElement := Some QuestionRef\<rparr>\<rparr>)) \<and>
         (\<forall>i < length (exampleButtons (doc b)).
            (ExampleButtonTarget i, Click, ExampleQuestionClick)
              \<in> set (listeners (setupEventListeners b)))"
  using assms by (simp add: exampleQuestionClick_def Let_def setupEventListeners_click)

theorem exampleQuestionClick_fills_witness:
  "question (doc (loaded samplePage)) = Some \<lparr>ta_value = js ''   '', ta_height = []\<rparr> \<and>
   (\<exists>b'. exampleQuestionClick (Some (js ''What is the return policy?'')) (loaded samplePage) =
            Returned () b' \<and>
          question (doc b') =
            Some \<lparr>ta_value = js ''What is the return policy?'', ta_height = []\<rparr> \<and>
          timers b' = [(500, FocusQuestion)]) \<and>
   (ExampleButtonTarget 0, Click, ExampleQuestionClick)
     \<in> set (listeners (setupEventListeners (loaded samplePage)))"
proof -
  have q: "question (doc (loaded samplePage)) = Some \<lparr>ta_value = js ''   '', ta_height = []\<rparr>"
    by (simp add: loaded_def samplePage_def)
  have l: "0 < length (exampleButtons (doc (loaded samplePage)))"
    by (simp add: loaded_def samplePage_def)
  from exampleQuestionClick_fills [OF q, of "js ''What is the return policy?''"] q l
  show ?thesis
    by (auto simp add: loaded_def samplePage_def)
qed

text \<open>
  The claim as first stated is about every click. On the sample page without the textarea a
  click on the example button throws a TypeError at the first lookup: no value is set, no
  scroll is requested and no timer is set.
\<close>

theorem exampleQuestionClick_without_textarea:
  "question (doc (loaded (samplePage\<lparr>question := None\<rparr>))) = None \<and>
   exampleButtons (doc (loaded (samplePage\<lparr>question := None\<rparr>))) =
     [Some (js ''What is the return policy?'')] \<and>
   exampleQuestionClick (Some (js ''What is the return policy?''))
       (loaded (samplePage\<lparr>question := None\<rparr>)) =
     Threw TypeError (loaded (samplePage\<lparr>question := None\<rparr>)) \<and>
   scrollRequests (loaded (samplePage\<lparr>question := None\<rparr>)) = [] \<and>
   timers (loaded (samplePage\<lparr>question := None\<rparr>)) = []"
  by (simp add: exampleQuestionClick_def loaded_def samplePage_def)

subsection \<open>The alert banner and its timer\<close>

lemma showAlert_body [simp]: "body (doc (showAlert message ty b)) = body (doc b)"
  by (cases "container (doc b)") (simp_all add: showAlert_no_container showAlert_container)

lemma showAlert_next_node [simp]: "next_node (showAlert message ty b) = Suc (next_node b)"
  by (cases "container (doc b)") (simp_all add: showAlert_no_container showAlert_container)

lemma removeNode_not_attached: "\<not> attached n (removeNode n b)"
  by (auto simp add: attached_def removeNode_def split: option.splits)

lemma removeNode_container:
  "container (doc s) = Some kids \<Longrightarrow>
   container (doc (removeNode n s)) = Some (filter (\<lambda>c. node_id c \<noteq> n) kids)"
  by (simp add: removeNode_def)

text \<open>
  C7. When the page has a \<^verbatim>\<open>.container\<close>, \<open>showAlert\<close> puts exactly one new node, the banner,
  in front of the container's children, with the class of the severity and the message in
  its markup, and sets one timer of 5000 ms to remove that banner. Whatever the state is
  when the timer fires, its callback returns with the banner not attached; a banner that
  is no longer attached (dismissed by hand) leaves that state as it is, and one that is
  still attached is the only node taken out. Fired on a page whose nodes have other
  identities, it gives the container its former children back.
\<close>

theorem showAlert_inserts_banner:
  assumes "container (doc b) = Some ch"
  shows "\<exists>banner.
           container (doc (showAlert message ty b)) = Some (banner # ch) \<and>
           node_id banner = next_node b \<and>
           className banner = alertClassName (case ty of None \<Rightarrow> js ''info'' | Some t \<Rightarrow> t) \<and>
           innerHTML banner = alertInnerHTML message \<and>
           timers (showAlert message ty b) = timers b @ [(5000, RemoveAlert (node_id banner))] \<and>
           (\<forall>s. \<exists>s'. runTimerCallback (RemoveAlert (node_id banner)) s = Returned () s' \<and>
                  \<not> attached (node_id banner) s' \<and>
                  (\<not> attached (node_id banner) s \<longrightarrow> s' = s) \<and>
                  (\<forall>kids. container (doc s) = Some kids \<and> attached (node_id banner) s \<longrightarrow>
                     container (doc s') = Some (filter (\<lambda>c. node_id c \<noteq> node_id banner) kids))) \<and>
           (next_node b \<notin> set (map node_id ch) \<longrightarrow>
              (\<exists>s'. runTimerCallback (RemoveAlert (node_id banner)) (showAlert message ty b) =
                      Returned () s' \<and> container (doc s') = Some ch))"
proof -
  let ?banner = "\<lparr>node_id = next_node b, tagName = js ''div'',
            className = alertClassName (case ty of None \<Rightarrow> js ''info'' | Some t \<Rightarrow> t),
            role = Some (js ''alert''), innerHTML = alertInnerHTML message, node_value = []\<rparr>"
  have timer: "\<exists>s'. runTimerCallback (RemoveAlert (next_node b)) s = Returned () s' \<and>
                  \<not> attached (next_node b) s' \<and>
                  (\<not> attached (next_node b) s \<longrightarrow> s' = s) \<and>
                  (\<forall>kids. container (doc s) = Some kids \<and> attached (next_node b) s \<longrightarrow>
                     container (doc s') = Some (filter (\<lambda>c. node_id c \<noteq> next_node b) kids))" for s
    by (cases "attached (next_node b) s") (simp_all add: removeNode_not_attached removeNode_container)
  have fresh: "container (doc s') = Some ch"
    if "next_node b \<notin> set (map node_id ch)"
      and "runTimerCallback (RemoveAlert (next_node b)) (showAlert message ty b) = Returned () s'" for s'
  proof -
    have "filter (\<lambda>c. node_id c \<noteq> next_node b) ch = ch"
      using that(1) by (induction ch) auto
    then show ?thesis
      using that(2) assms
      by (auto simp add: showAlert_container attached_def removeNode_def)
  qed
  have "container (doc (showAlert message ty b)) = Some (?banner # ch)"
    and "timers (showAlert message ty b) = timers b @ [(5000, RemoveAlert (node_id ?banner))]"
    using assms by (simp_all add: showAlert_container)
  moreover have "next_node b \<notin> set (map node_id ch) \<longrightarrow>
              (\<exists>s'. runTimerCallback (RemoveAlert (node_id ?banner)) (showAlert message ty b) =
                      Returned () s' \<and> container (doc s') = Some ch)"
    using fresh by simp
  ultimately show ?thesis
    using timer by (intro exI [of _ ?banner]) simp
qed

theorem showAlert_inserts_banner_witness:
  "container (doc (loaded samplePage)) =
     Some [\<lparr>node_id = 0, tagName = js ''h1'', className = [], role = None,
            innerHTML = js ''Retail Q&A'', node_value = []\<rparr>] \<and>
   map className (the (container (doc
       (showAlert (js ''Copied!'') (Some (js ''success'')) (loaded samplePage))))) =
     [js ''alert alert-success alert-dismissible fade show'', []] \<and>
   map node_id (the (container (doc
       (showAlert (js ''Copied!'') (Some (js ''success'')) (loaded samplePage))))) = [1, 0] \<and>
   timers (showAlert (js ''Copied!'') (Some (js ''success'')) (loaded samplePage)) =
     [(5000, RemoveAlert 1)] \<and>
   (\<exists>s'. runTimerCallback (RemoveAlert 1)
            (showAlert (js ''Copied!'') (Some (js ''success'')) (loaded samplePage)) =
            Returned () s' \<and>
          container (doc s') = container (doc (loaded samplePage))) \<and>
   (\<exists>s'. runTimerCallback (RemoveAlert 1) (loaded samplePage) = Returned () s' \<and>
          s' = loaded samplePage)"
proof -
  have c: "container (doc (loaded samplePage)) =
     Some [\<lparr>node_id = 0, tagName = js ''h1'', className = [], role = None,
            innerHTML = js ''Retail Q&A'', node_value = []\<rparr>]"
    by (simp add: loaded_def samplePage_def)
  have n: "next_node (loaded samplePage) = 1"
    by (simp add: loaded_def freshId_def samplePage_def)
  have a: "alertClassName (js ''success'') = js ''alert alert-success alert-dismissible fade show''"
    by (simp add: alertClassName_def js_def)
  have t: "timers (loaded samplePage) = []"
    by (simp add: loaded_def)
  have d: "\<not> attached 1 (loaded samplePage)"
    by (simp add: attached_def c)
  from showAlert_inserts_banner [OF c, of "js ''Copied!''" "Some (js ''success'')"] c d
  show ?thesis
    by (auto simp add: n a t)
qed

text \<open>
  C10. When the page has no \<^verbatim>\<open>.container\<close>, \<open>showAlert\<close> changes nothing but the allocator
  of node identities (the banner it built is dropped): the document and the pending timers
  are what they were.
\<close>

theorem showAlert_without_container:
  assumes "container (doc b) = None"
  shows "showAlert message ty b = b\<lparr>next_node := Suc (next_node b)\<rparr> \<and>
         doc (showAlert message ty b) = doc b \<and>
         timers (showAlert message ty b) = timers b"
  using assms by (simp add: showAlert_no_container)

theorem showAlert_without_container_witness:
  "container (doc (loaded (samplePage\<lparr>container := None\<rparr>))) = None \<and>
   doc (showAlert (js ''Copied!'') (Some (js ''success'')) (loaded (samplePage\<lparr>container := None\<rparr>))) =
     samplePage\<lparr>container := None\<rparr> \<and>
   timers (showAlert (js ''Copied!'') (Some (js ''success'')) (loaded (samplePage\<lparr>container := None\<rparr>))) = []"
proof -
  have c: "container (doc (loaded (samplePage\<lparr>container := None\<rparr>))) = None"
    by (simp add: loaded_def)
  from showAlert_without_container [OF c, of "js ''Copied!''" "Some (js ''success'')"] c
  show ?thesis
    by (simp add: loaded_def)
qed

subsection \<open>Copying the answer\<close>

lemma alert_success: "alertClassName (js ''success'') = js ''alert alert-success alert-dismissible fade show''"
  by (simp add: alertClassName_def js_def)

lemma alert_warning: "alertClassName (js ''warning'') = js ''alert alert-warning alert-dismissible fade show''"
  by (simp add: alertClassName_def js_def)

lemma removeChild_appended:
  "node_id t = n \<Longrightarrow> removeChild n (ch @ [t]) = Inr (filter (\<lambda>c. node_id c \<noteq> n) ch)"
  by (simp add: removeChild_def)

text \<open>
  C6, as amended. When the answer node exists, \<open>copyAnswer\<close> returns normally whatever
  \<^verbatim>\<open>execCommand\<close> did, and the temporary textarea is not among the children of the body in
  the state it returns: the body is what it was. If the page has a \<^verbatim>\<open>.container\<close>, one
  banner is put in front of its children, of class \<^verbatim>\<open>alert-success\<close> when \<^verbatim>\<open>execCommand\<close>
  returned and \<^verbatim>\<open>alert-warning\<close> when it threw; if it has none, no banner is inserted.
\<close>

theorem copyAnswer_removes_input:
  assumes "answerContent (doc b) = Some answer"
  shows "\<exists>b'. copyAnswer execCommand b = Returned () b' \<and>
           body (doc b') = filter (\<lambda>c. node_id c \<noteq> next_node b) (body (doc b)) \<and>
           next_node b \<notin> set (map node_id (body (doc b'))) \<and>
           (case container (doc b) of
              None \<Rightarrow> container (doc b') = None
            | Some ch \<Rightarrow>
                \<exists>banner. container (doc b') = Some (banner # ch) \<and>
                  className banner =
                    (case execCommand of
                       CopyReturns done \<Rightarrow> js ''alert alert-success alert-dismissible fade show''
                     | CopyThrows err \<Rightarrow> js ''alert alert-warning alert-dismissible fade show''))"
proof (cases "container (doc b)")
  case None
  then show ?thesis
    using assms
    by (cases execCommand)
      (auto simp add: copyAnswer_def createElement_def Let_def showAlert_no_container
        removeChild_appended)
next
  case (Some ch)
  then show ?thesis
    using assms
    by (cases execCommand)
      (auto simp add: copyAnswer_def createElement_def Let_def showAlert_container
        removeChild_appended alert_success alert_warning)
qed

theorem copyAnswer_removes_input_witness:
  "answerContent (doc (loaded samplePage)) = Some (js ''Within 30 days.'') \<and>
   (\<exists>b'. copyAnswer (CopyThrows NotFoundError) (loaded samplePage) = Returned () b' \<and>
          body (doc b') = [] \<and>
          map className (the (container (doc b'))) =
            [js ''alert alert-warning alert-dismissible fade show'', []]) \<and>
   (\<exists>b'. copyAnswer (CopyReturns True) (loaded samplePage) = Returned () b' \<and>
          body (doc b') = [] \<and>
          map className (the (container (doc b'))) =
            [js ''alert alert-success alert-dismissible fade show'', []])"
proof -
  have a: "answerContent (doc (loaded samplePage)) = Some (js ''Within 30 days.'')"
    by (simp add: loaded_def samplePage_def)
  have c: "container (doc (loaded samplePage)) =
     Some [\<lparr>node_id = 0, tagName = js ''h1'', className = [], role = None,
            innerHTML = js ''Retail Q&A'', node_value = []\<rparr>]"
    by (simp add: loaded_def samplePage_def)
  have bd: "body (doc (loaded samplePage)) = []"
    by (simp add: loaded_def samplePage_def)
  from copyAnswer_removes_input [OF a, of "CopyThrows NotFoundError"]
    copyAnswer_removes_input [OF a, of "CopyReturns True"] a
  show ?thesis
    by (auto simp add: c bd)
qed

text \<open>
  The claim as first stated promises the success alert whenever the copy succeeds. On the
  sample page without its \<^verbatim>\<open>.container\<close> the copy succeeds, the answer is on the clipboard,
  and no banner is anywhere.
\<close>

theorem copyAnswer_no_container:
  "copyAnswer (CopyReturns True) (loaded (samplePage\<lparr>container := None\<rparr>)) =
     Returned ()
       ((loaded (samplePage\<lparr>container := None\<rparr>))
          \<lparr>doc := samplePage\<lparr>container := None, selection := Some (NodeRef 1)\<rparr>,
            next_node := 3, clipboard := js ''Within 30 days.''\<rparr>) \<and>
   container (samplePage\<lparr>container := None, selection := Some (NodeRef 1)\<rparr>) = None \<and>
   timers ((loaded (samplePage\<lparr>container := None\<rparr>))
          \<lparr>doc := samplePage\<lparr>container := None, selection := Some (NodeRef 1)\<rparr>,
            next_node := 3, clipboard := js ''Within 30 days.''\<rparr>) = []"
  by (simp add: copyAnswer_def createElement_def Let_def showAlert_no_container removeChild_def
      loaded_def freshId_def samplePage_def)

subsection \<open>The request helper\<close>

text \<open>
  C8, as amended. \<open>askQuestionAPI\<close> sends exactly one request: a POST to \<^verbatim>\<open>/api/ask\<close> with the JSON
  content type and the serialised object \<^verbatim>\<open>{question: q}\<close> as its body. When the response's
  status is outside 200..299 the promise is rejected with the error whose message is
  \<^verbatim>\<open>HTTP error! status: \<close> followed by the status in decimal; when it is inside and the body
  parses as JSON, the promise resolves to the parsed value; when it is inside and the body
  does not parse, the promise is rejected with the error of \<^verbatim>\<open>response.json()\<close>.
\<close>

theorem askQuestionAPI_contract:
  "(requests (case askQuestionAPI stringify fetch q b of Returned d s \<Rightarrow> s | Threw e s \<Rightarrow> s) =
      requests b @
        [\<lparr>url = js ''/api/ask'', http_method = js ''POST'',
          headers = [(js ''Content-Type'', js ''application/json'')],
          req_body = stringify (JObject [(js ''question'', JString q)])\<rparr>]) \<and>
   (\<forall>r. fetch \<lparr>url = js ''/api/ask'', http_method = js ''POST'',
                headers = [(js ''Content-Type'', js ''application/json'')],
                req_body = stringify (JObject [(js ''question'', JString q)])\<rparr> = FetchResolves r \<longrightarrow>
      (\<not> (200 \<le> status r \<and> status r \<le> 299) \<longrightarrow>
         (\<exists>s. askQuestionAPI stringify fetch q b =
                Threw (Error (js ''HTTP error! status: '' @ decimal (status r))) s)) \<and>
      (\<forall>data. 200 \<le> status r \<and> status r \<le> 299 \<and> json_body r = Inr data \<longrightarrow>
         (\<exists>s. askQuestionAPI stringify fetch q b = Returned data s)) \<and>
      (\<forall>err. 200 \<le> status r \<and> status r \<le> 299 \<and> json_body r = Inl err \<longrightarrow>
         (\<exists>s. askQuestionAPI stringify fetch q b = Threw err s)))"
  by (auto simp add: askQuestionAPI_def Let_def response_ok_def split: fetch_outcome.splits sum.splits)

theorem askQuestionAPI_contract_witness:
  \<open>(\<exists>s. askQuestionAPI (\<lambda>j. js ''{"question":"hours?"}'')
          (\<lambda>r. FetchResolves \<lparr>status = 500, json_body = Inl SyntaxError\<rparr>) (js ''hours?'')
          (loaded samplePage) = Threw (Error (js ''HTTP error! status: 500'')) s) \<and>
   (\<exists>s. askQuestionAPI (\<lambda>j. js ''{"question":"hours?"}'')
          (\<lambda>r. FetchResolves \<lparr>status = 200, json_body = Inr (JObject [(js ''answer'', JString (js ''x''))])\<rparr>)
          (js ''hours?'') (loaded samplePage) =
        Returned (JObject [(js ''answer'', JString (js ''x''))]) s \<and>
        map url (requests s) = [js ''/api/ask''] \<and>
        map req_body (requests s) = [js ''{"question":"hours?"}'']) \<and>
   (\<exists>s. askQuestionAPI (\<lambda>j. js ''{"question":"hours?"}'')
          (\<lambda>r. FetchResolves \<lparr>status = 204, json_body = Inl SyntaxError\<rparr>) (js ''hours?'')
          (loaded samplePage) = Threw SyntaxError s)\<close>
proof -
  have d: "decimal 500 = js ''500''"
    by (simp add: decimal.simps js_def)
  have r: "requests (loaded samplePage) = []"
    by (simp add: loaded_def)
  from askQuestionAPI_contract [of \<open>\<lambda>j. js ''{"question":"hours?"}''\<close>
      "\<lambda>r. FetchResolves \<lparr>status = 500, json_body = Inl SyntaxError\<rparr>" "js ''hours?''" "loaded samplePage"]
    askQuestionAPI_contract [of \<open>\<lambda>j. js ''{"question":"hours?"}''\<close>
      "\<lambda>r. FetchResolves \<lparr>status = 200, json_body = Inr (JObject [(js ''answer'', JString (js ''x''))])\<rparr>"
      "js ''hours?''" "loaded samplePage"]
    askQuestionAPI_contract [of \<open>\<lambda>j. js ''{"question":"hours?"}''\<close>
      "\<lambda>r. FetchResolves \<lparr>status = 204, json_body = Inl SyntaxError\<rparr>" "js ''hours?''" "loaded samplePage"]
  show ?thesis
    by (auto simp add: d r js_def)
qed

text \<open>
  The claim as first stated promises a resolved promise for every status from 200 to 299.
  A response of status 200 whose body is not JSON is logged and rejected with the
  SyntaxError of \<^verbatim>\<open>response.json()\<close>, which the \<^verbatim>\<open>catch\<close> block throws again.
\<close>

theorem askQuestionAPI_unparsable_body:
  \<open>askQuestionAPI (\<lambda>j. js ''{"question":"hours?"}'')
     (\<lambda>r. FetchResolves \<lparr>status = 200, json_body = Inl SyntaxError\<rparr>) (js ''hours?'')
     (loaded samplePage) =
   Threw SyntaxError
     ((loaded samplePage)
        \<lparr>requests :=
           [\<lparr>url = js ''/api/ask'', http_method = js ''POST'',
             headers = [(js ''Content-Type'', js ''application/json'')],
             req_body = js ''{"question":"hours?"}''\<rparr>],
         console := [ConsoleError (js ''Error asking question:'') (Some SyntaxError)]\<rparr>)\<close>
  by (simp add: askQuestionAPI_def Let_def response_ok_def loaded_def)

subsection \<open>The loading state\<close>

lemma controls_showAlert: "controls (showAlert message ty b) = controls b"
  by (cases "container (doc b)")
    (simp_all add: showAlert_no_container showAlert_container controls_def)

lemma loading_controls: "controls a = controls b \<Longrightarrow> loading a = loading b"
  by (simp add: controls_def loading_def)

lemma loading_showLoadingState: "loading (showLoadingState b)"
  by (simp add: loading_def showLoadingState_def split: option.splits)

lemma controls_showLoadingState: "loading b \<Longrightarrow> controls (showLoadingState b) = controls b"
  by (auto simp add: loading_def controls_def showLoadingState_def split: option.splits)

lemma controls_funpow:
  assumes step: "\<And>s. loading s \<Longrightarrow> controls (h s) = controls s" and "loading b"
  shows "controls ((h ^^ n) b) = controls b"
proof (induction n)
  case 0
  show ?case by simp
next
  case (Suc n)
  have "loading ((h ^^ n) b)"
    using Suc.IH assms(2) loading_controls by blast
  then have "controls (h ((h ^^ n) b)) = controls ((h ^^ n) b)"
    by (rule step)
  with Suc.IH show ?case by simp
qed

lemma controls_dispatch:
  assumes "\<And>s. loading s \<Longrightarrow> controls (h s) = controls s" and "loading b"
  shows "controls (dispatch t ty l h b) = controls b"
  unfolding dispatch_def using assms by (rule controls_funpow)

lemma controls_globalErrorHandler: "controls (globalErrorHandler err b) = controls b"
  by (simp add: globalErrorHandler_def controls_showAlert) (simp add: controls_def)

lemma controls_unhandledRejectionHandler: "controls (unhandledRejectionHandler reason b) = controls b"
  by (simp add: unhandledRejectionHandler_def controls_showAlert) (simp add: controls_def)

lemma controls_reportError: "loading b \<Longrightarrow> controls (reportError e b) = controls b"
  unfolding reportError_def by (rule controls_dispatch) (simp_all add: controls_globalErrorHandler)

lemma controls_settle_Returned: "controls (settle (Returned x s)) = controls s"
  by (simp add: settle_def)

lemma controls_settle_Threw: "loading s \<Longrightarrow> controls (settle (Threw e s)) = controls s"
  by (simp add: settle_def controls_reportError)

lemma controls_handleFormSubmit:
  "loading s \<Longrightarrow> controls (settle (handleFormSubmit ev s)) = controls s"
  by (simp add: handleFormSubmit_def Let_def controls_settle_Returned controls_settle_Threw
      controls_showAlert controls_showLoadingState split: option.splits)

lemma setupEventListeners_doc: "doc (setupEventListeners b) = doc b"
  by (simp add: setupEventListeners_def Let_def foldl_click_doc split: option.splits del: upt.simps)

lemma controls_initializeApp:
  assumes "loading s"
  shows "controls (settle (initializeApp bootstrapDefined s)) = controls s"
proof -
  have c: "controls (setupEventListeners s) = controls s"
    by (simp add: controls_def setupEventListeners_doc)
  then have l: "loading (setupEventListeners s)"
    using assms loading_controls by blast
  show ?thesis
    using c l
    by (simp add: initializeApp_def initializeTooltips_def controls_settle_Returned
        controls_settle_Threw)
      (simp add: controls_def)
qed

lemma controls_exampleQuestionClick:
  "loading s \<Longrightarrow> controls (settle (exampleQuestionClick dq s)) = controls s"
  by (simp add: exampleQuestionClick_def Let_def controls_settle_Returned controls_settle_Threw
      split: option.splits) (simp add: controls_def)

lemma controls_runTimerCallback:
  assumes "loading s"
  shows "controls (settle (runTimerCallback cb s)) = controls s"
proof (cases cb)
  case FocusQuestion
  then show ?thesis
    using assms
    by (simp add: controls_settle_Returned controls_settle_Threw split: option.splits)
      (simp add: controls_def)
next
  case (RemoveAlert n)
  then show ?thesis
    by (simp add: controls_settle_Returned removeNode_def split: option.splits)
      (simp add: controls_def)
next
  case Redirect
  then show ?thesis
    by (simp add: controls_settle_Returned) (simp add: controls_def)
qed

lemma controls_body_update: "controls (b\<lparr>doc := (doc b)\<lparr>body := ch\<rparr>\<rparr>) = controls b"
  by (simp add: controls_def)

lemma controls_copyAnswer: "controls (settle (copyAnswer execCommand s)) = controls s"
proof (cases "answerContent (doc s)")
  case None
  then show ?thesis
    by (simp add: copyAnswer_def controls_settle_Returned)
next
  case (Some answer)
  show ?thesis
  proof (cases execCommand)
    case (CopyReturns ok)
    then show ?thesis
      using Some
      by (simp add: copyAnswer_def createElement_def Let_def removeChild_appended
          controls_settle_Returned controls_body_update controls_showAlert)
        (simp add: controls_def)
  next
    case (CopyThrows err)
    then show ?thesis
      using Some
      by (simp add: copyAnswer_def createElement_def Let_def removeChild_appended
          controls_settle_Returned controls_body_update controls_showAlert)
        (simp add: controls_def)
  qed
qed

lemma controls_clearAnswer: "controls (clearAnswer s) = controls s"
  by (simp add: clearAnswer_def Let_def controls_def split: option.splits)

lemma controls_askQuestionAPI:
  "controls (case askQuestionAPI stringify fetch q s of Returned d t \<Rightarrow> t | Threw e t \<Rightarrow> t) = controls s"
  by (simp add: askQuestionAPI_def Let_def controls_def split: sum.splits fetch_outcome.splits)

lemma controls_autoResize:
  "controls (case question (doc s) of
               None \<Rightarrow> s
             | Some ta \<Rightarrow> s\<lparr>doc := (doc s)\<lparr>question := Some (autoResizeTextarea sh ta)\<rparr>\<rparr>) = controls s"
  by (simp add: controls_def split: option.splits)

lemma controls_run:
  assumes "loading b"
  shows "controls (run e b) = controls b"
proof (cases e)
  case (OnDOMContentLoaded bootstrapDefined)
  then show ?thesis
    using assms by (simp add: controls_dispatch controls_initializeApp)
next
  case (OnSubmit ev)
  then show ?thesis
    using assms by (simp add: controls_dispatch controls_handleFormSubmit)
next
  case (OnClick i)
  then show ?thesis
    using assms by (simp add: controls_dispatch controls_exampleQuestionClick)
next
  case (OnInput sh)
  then show ?thesis
    using assms by (simp add: controls_dispatch controls_autoResize)
next
  case (OnError err)
  then show ?thesis
    using assms by (simp add: controls_dispatch controls_globalErrorHandler)
next
  case (OnUnhandledRejection reason)
  then show ?thesis
    using assms by (simp add: controls_dispatch controls_unhandledRejectionHandler)
next
  case (OnTimer k)
  have c: "controls (b\<lparr>timers := ts\<rparr>) = controls b" for ts
    by (simp add: controls_def)
  then have "loading (b\<lparr>timers := ts\<rparr>)" for ts
    using assms loading_controls by blast
  then show ?thesis
    using OnTimer c by (simp add: controls_runTimerCallback)
next
  case (CallCopyAnswer execCommand)
  then show ?thesis
    by (simp add: controls_copyAnswer)
next
  case CallClearAnswer
  then show ?thesis by (simp add: controls_clearAnswer)
next
  case (CallShowAlert message ty)
  then show ?thesis by (simp add: controls_showAlert)
next
  case (CallAskQuestionAPI stringify fetch q)
  then show ?thesis by (simp add: controls_askQuestionAPI)
qed

lemma controls_runs: "loading b \<Longrightarrow> controls (runs es b) = controls b"
proof (induction es arbitrary: b)
  case Nil
  show ?case by (simp add: runs_def)
next
  case (Cons e es)
  have c: "controls (run e b) = controls b"
    using Cons.prems by (rule controls_run)
  then have "loading (run e b)"
    using Cons.prems loading_controls by blast
  then have "controls (runs es (run e b)) = controls (run e b)"
    by (rule Cons.IH)
  with c show ?case by (simp add: runs_def)
qed

text \<open>
  C9. No entry point of the file undoes \<open>showLoadingState\<close>: after it has run, whatever
  events, timers and exported functions run next and in whatever order, the submit button
  (if there is one) is still disabled with the processing label and the spinner (if there
  is one) is still displayed as a block. The entry points are all of \<open>run\<close>, and
  \<open>hideLoadingState\<close>, the one function that would re-enable the button, is reached by
  none of them.
\<close>

theorem loading_state_stays:
  "submitBtn (doc (runs es (showLoadingState b))) =
     map_option (\<lambda>btn. btn\<lparr>btn_disabled := True, btn_innerHTML := processingLabel\<rparr>)
       (submitBtn (doc b)) \<and>
   loadingSpinner (doc (runs es (showLoadingState b))) =
     map_option (\<lambda>sp. sp\<lparr>sp_display := js ''block''\<rparr>) (loadingSpinner (doc b)) \<and>
   loading (runs es (showLoadingState b))"
proof -
  have l: "loading (showLoadingState b)"
    by (rule loading_showLoadingState)
  then have c: "controls (runs es (showLoadingState b)) = controls (showLoadingState b)"
    by (rule controls_runs)
  then have "loading (runs es (showLoadingState b))"
    using l loading_controls by blast
  moreover have "controls (showLoadingState b) =
      (map_option (\<lambda>btn. btn\<lparr>btn_disabled := True, btn_innerHTML := processingLabel\<rparr>)
         (submitBtn (doc b)),
       map_option (\<lambda>sp. sp\<lparr>sp_display := js ''block''\<rparr>) (loadingSpinner (doc b)))"
    by (simp add: controls_def showLoadingState_def split: option.splits)
  ultimately show ?thesis
    using c by (simp add: controls_def)
qed

theorem loading_state_stays_witness:
  "submitBtn (doc (runs [OnSubmit \<lparr>defaultPrevented = False\<rparr>, CallClearAnswer, OnTimer 0,
        CallCopyAnswer (CopyReturns True), OnError None]
      (showLoadingState (run (OnDOMContentLoaded True) (main_js (loaded samplePage)))))) =
     Some \<lparr>btn_disabled = True, btn_innerHTML = processingLabel\<rparr> \<and>
   loadingSpinner (doc (runs [OnSubmit \<lparr>defaultPrevented = False\<rparr>, CallClearAnswer, OnTimer 0,
        CallCopyAnswer (CopyReturns True), OnError None]
      (showLoadingState (run (OnDOMContentLoaded True) (main_js (loaded samplePage)))))) =
     Some \<lparr>sp_display = js ''block''\<rparr> \<and>
   submitBtn (doc (hideLoadingState
      (showLoadingState (run (OnDOMContentLoaded True) (main_js (loaded samplePage)))))) =
     Some \<lparr>btn_disabled = False, btn_innerHTML = askLabel\<rparr>"
proof -
  define b0 where "b0 = run (OnDOMContentLoaded True) (main_js (loaded samplePage))"
  have d: "doc b0 = samplePage"
    by (simp add: b0_def main_js_def loaded_def dispatch_def registrations_def settle_def
        initializeApp_def initializeTooltips_def setupEventListeners_doc)
  have s: "submitBtn samplePage = Some \<lparr>btn_disabled = False, btn_innerHTML = askLabel\<rparr>"
    and p: "loadingSpinner samplePage = Some \<lparr>sp_display = js ''none''\<rparr>"
    by (simp_all add: samplePage_def)
  have h: "submitBtn (doc (hideLoadingState (showLoadingState b0))) =
      Some \<lparr>btn_disabled = False, btn_innerHTML = askLabel\<rparr>"
    by (simp add: hideLoadingState_def showLoadingState_def Let_def d s p)
  from loading_state_stays [of "[OnSubmit \<lparr>defaultPrevented = False\<rparr>, CallClearAnswer, OnTimer 0,
        CallCopyAnswer (CopyReturns True), OnError None]" b0] h
  show ?thesis
    unfolding b0_def [symmetric] by (simp add: d s p)
qed

end
